theory Spec2Isabelle
  imports Main
begin

section \<open>JavaScript values used by the scripts\<close>

text \<open>
  A JavaScript string is modelled as a \<^typ>\<open>string\<close> whose characters are the code
  units \<open>0 .. 255\<close> (the Latin-1 range); \<open>length\<close> counts code units, as the
  \<open>.length\<close> and \<open>.slice\<close> of the scripts do.
\<close>

subsection \<open>String methods\<close>

text \<open>\<open>s.startsWith(p)\<close> and \<open>s.includes(p)\<close>.\<close>

fun startsWith :: "string \<Rightarrow> string \<Rightarrow> bool" where
  "startsWith s [] = True"
| "startsWith [] (p # ps) = False"
| "startsWith (c # cs) (p # ps) = (c = p \<and> startsWith cs ps)"

fun js_includes :: "string \<Rightarrow> string \<Rightarrow> bool" where
  "js_includes [] p = (p = [])"
| "js_includes (c # cs) p = (startsWith (c # cs) p \<or> js_includes cs p)"

text \<open>
  \<open>s.trim()\<close>: the white space and line terminators of ECMAScript that lie in the
  Latin-1 range are TAB, LF, VT, FF, CR, SPACE and NBSP.
\<close>

definition is_white_space :: "char \<Rightarrow> bool" where
  "is_white_space c \<longleftrightarrow>
     c \<in> set [CHR 0x09, CHR 0x0A, CHR 0x0B, CHR 0x0C, CHR 0x0D, CHR 0x20, CHR 0xA0]"

definition trim :: "string \<Rightarrow> string" where
  "trim s = rev (dropWhile is_white_space (rev (dropWhile is_white_space s)))"

text \<open>
  \<open>s.toLowerCase()\<close>: in the Latin-1 range the letters with a lower-case partner are
  \<open>A .. Z\<close> and \<open>U+00C0 .. U+00DE\<close> without the multiplication sign \<open>U+00D7\<close>;
  the partner is 32 code points further.
\<close>

definition lower_char :: "char \<Rightarrow> char" where
  "lower_char c =
     (let n = (of_char c :: nat)
      in if (65 \<le> n \<and> n \<le> 90) \<or> (192 \<le> n \<and> n \<le> 222 \<and> n \<noteq> 215)
         then char_of (n + 32) else c)"

definition toLowerCase :: "string \<Rightarrow> string" where
  "toLowerCase s = map lower_char s"

text \<open>\<open>s.split("\n")[0]\<close>: everything before the first line feed.\<close>

definition first_line :: "string \<Rightarrow> string" where
  "first_line s = takeWhile (\<lambda>c. c \<noteq> CHR 0x0A) s"

text \<open>\<open>s.slice(0, n)\<close> and \<open>s.slice(n)\<close> for a non-negative \<open>n\<close>.\<close>

definition slice_to :: "nat \<Rightarrow> string \<Rightarrow> string" where
  "slice_to n s = take n s"

definition slice_from :: "nat \<Rightarrow> string \<Rightarrow> string" where
  "slice_from n s = drop n s"

text \<open>Decimal rendering of a non-negative integer, as a template literal does.\<close>

definition digit_char :: "nat \<Rightarrow> char" where
  "digit_char d = char_of (48 + d)"

function show_nat :: "nat \<Rightarrow> string" where
  "show_nat n = (if n < 10 then [digit_char n] else show_nat (n div 10) @ [digit_char (n mod 10)])"
  by pat_completeness auto
termination
  by (relation "measure (\<lambda>n. n)") auto

declare show_nat.simps [simp del]

subsection \<open>Parsed JSON\<close>

text \<open>
  A value produced by \<open>JSON.parse\<close>. A number is kept as its canonical rendering
  \<open>String(n)\<close> (JSON has no NaN, and both zeros render as \<open>0\<close>); an object lists its
  own properties in enumeration order.
\<close>

datatype json =
    JNull
  | JBool bool
  | JNum string
  | JStr string
  | JArr "json list"
  | JObj "(string \<times> json) list"

text \<open>Truthiness (\<open>ToBoolean\<close>).\<close>

fun truthy :: "json \<Rightarrow> bool" where
  "truthy JNull = False"
| "truthy (JBool b) = b"
| "truthy (JNum s) = (s \<noteq> ''0'')"
| "truthy (JStr s) = (s \<noteq> [])"
| "truthy (JArr xs) = True"
| "truthy (JObj kvs) = True"

text \<open>
  \<open>v?.k\<close> for a key \<open>k\<close> that no prototype defines (\<open>generated_text\<close>, \<open>error\<close>):
  \<open>None\<close> is \<open>undefined\<close>.
\<close>

fun get_prop :: "json \<Rightarrow> string \<Rightarrow> json option" where
  "get_prop (JObj kvs) k = map_of kvs k"
| "get_prop v k = None"

text \<open>\<open>data[0]\<close> of an array.\<close>

fun first_elem :: "json \<Rightarrow> json option" where
  "first_elem (JArr (x # xs)) = Some x"
| "first_elem v = None"

fun is_array :: "json \<Rightarrow> bool" where
  "is_array (JArr xs) = True"
| "is_array v = False"

subsection \<open>Thrown errors\<close>

text \<open>An \<open>Error\<close> object: its \<open>name\<close> and its \<open>message\<close>.\<close>

datatype js_error = JsError (err_name: string) (err_message: string)

definition new_Error :: "string \<Rightarrow> js_error" where
  "new_Error msg = JsError ''Error'' msg"

definition new_TypeError :: "string \<Rightarrow> js_error" where
  "new_TypeError msg = JsError ''TypeError'' msg"

text \<open>\<open>String(e)\<close>, that is \<open>Error.prototype.toString\<close>.\<close>

definition error_toString :: "js_error \<Rightarrow> string" where
  "error_toString e =
     (if err_name e = [] then err_message e
      else if err_message e = [] then err_name e
      else err_name e @ '': '' @ err_message e)"

text \<open>\<open>String(e.message || e)\<close>.\<close>

definition message_or_error :: "js_error \<Rightarrow> string" where
  "message_or_error e = (if err_message e \<noteq> [] then err_message e else error_toString e)"

text \<open>
  \<open>String(v)\<close> of a parsed JSON value. An object with an own \<open>toString\<close> property
  (never callable after \<open>JSON.parse\<close>) has no primitive value and \<open>String\<close> throws;
  \<open>Array.prototype.join\<close> renders \<open>null\<close> as the empty string.
\<close>

definition no_primitive :: js_error where
  "no_primitive = new_TypeError ''Cannot convert object to primitive value''"

fun join_comma :: "(js_error + string) list \<Rightarrow> js_error + string" where
  "join_comma [] = Inr []"
| "join_comma [p] = p"
| "join_comma (p # q # ps) =
     (case p of Inl e \<Rightarrow> Inl e
      | Inr s \<Rightarrow> (case join_comma (q # ps) of Inl e \<Rightarrow> Inl e | Inr t \<Rightarrow> Inr (s @ '','' @ t)))"

fun js_String :: "json \<Rightarrow> js_error + string" where
  "js_String JNull = Inr ''null''"
| "js_String (JBool b) = Inr (if b then ''true'' else ''false'')"
| "js_String (JNum s) = Inr s"
| "js_String (JStr s) = Inr s"
| "js_String (JArr xs) =
     join_comma (map (\<lambda>x. if x = JNull then Inr [] else js_String x) xs)"
| "js_String (JObj kvs) =
     (if ''toString'' \<in> fst ` set kvs then Inl no_primitive else Inr ''[object Object]'')"

subsection \<open>\<open>JSON.stringify\<close>\<close>

definition hex_digit :: "nat \<Rightarrow> char" where
  "hex_digit d = ''0123456789abcdef'' ! (d mod 16)"

definition escape_char :: "char \<Rightarrow> string" where
  "escape_char c =
     (if c = CHR 0x22 then [CHR 0x5C, CHR 0x22]
      else if c = CHR 0x5C then [CHR 0x5C, CHR 0x5C]
      else if c = CHR 0x08 then [CHR 0x5C, CHR ''b'']
      else if c = CHR 0x0C then [CHR 0x5C, CHR ''f'']
      else if c = CHR 0x0A then [CHR 0x5C, CHR ''n'']
      else if c = CHR 0x0D then [CHR 0x5C, CHR ''r'']
      else if c = CHR 0x09 then [CHR 0x5C, CHR ''t'']
      else if (of_char c :: nat) < 32
        then [CHR 0x5C, CHR ''u'', CHR ''0'', CHR ''0'',
              hex_digit (of_char c div 16), hex_digit (of_char c mod 16)]
      else [c])"

definition quote :: "string \<Rightarrow> string" where
  "quote s = [CHR 0x22] @ concat (map escape_char s) @ [CHR 0x22]"

fun join_with :: "string \<Rightarrow> string list \<Rightarrow> string" where
  "join_with sep [] = []"
| "join_with sep [s] = s"
| "join_with sep (s # t # ss) = s @ sep @ join_with sep (t # ss)"

fun JSON_stringify :: "json \<Rightarrow> string" where
  "JSON_stringify JNull = ''null''"
| "JSON_stringify (JBool b) = (if b then ''true'' else ''false'')"
| "JSON_stringify (JNum s) = s"
| "JSON_stringify (JStr s) = quote s"
| "JSON_stringify (JArr xs) = ''['' @ join_with '','' (map JSON_stringify xs) @ '']''"
| "JSON_stringify (JObj kvs) =
     ''{'' @ join_with '','' (map (\<lambda>(k, v). quote k @ '':'' @ JSON_stringify v) kvs) @ ''}''"

section \<open>The browser: network and timers\<close>

text \<open>
  A response of \<open>fetch\<close>: \<open>body_text\<close> is what \<open>res.text()\<close> settles to and
  \<open>body_json\<close> what \<open>res.json()\<close> settles to (\<open>Inl\<close> is a rejection).
\<close>

record response =
  status :: nat
  statusText :: string
  body_text :: "js_error + string"
  body_json :: "js_error + json"

definition ok :: "response \<Rightarrow> bool" where
  "ok res \<longleftrightarrow> 200 \<le> status res \<and> status res \<le> 299"

text \<open>
  The body handed to \<open>fetch\<close>: a string, or a \<open>URLSearchParams\<close> object with its
  list of fields, which the browser sends as \<open>application/x-www-form-urlencoded\<close>.
  \<open>headers\<close> are the headers the script itself asks for.
\<close>

datatype req_body = TextBody string | FormBody "(string \<times> string) list"

record request =
  url :: string
  http_method :: string
  headers :: "(string \<times> string) list"
  body :: req_body

datatype event = Fetch request | Sleep nat

fun is_Fetch :: "event \<Rightarrow> bool" where
  "is_Fetch (Fetch rq) = True"
| "is_Fetch (Sleep ms) = False"

text \<open>
  The part of the world every script shares: \<open>network n\<close> is how the \<open>n\<close>-th
  \<open>fetch\<close> of the page settles (\<open>Inl\<close>: it rejects), \<open>trace\<close> the requests issued and
  the delays waited so far, in order.
\<close>

record browser =
  network :: "nat \<Rightarrow> js_error + response"
  trace :: "event list"

definition fetch_count :: "'a browser_scheme \<Rightarrow> nat" where
  "fetch_count w = length (filter is_Fetch (trace w))"

definition fetch :: "request \<Rightarrow> 'a browser_scheme \<Rightarrow> (js_error + response) \<times> 'a browser_scheme" where
  "fetch rq w = (network w (fetch_count w), w\<lparr>trace := trace w @ [Fetch rq]\<rparr>)"

definition sleep :: "nat \<Rightarrow> 'a browser_scheme \<Rightarrow> 'a browser_scheme" where
  "sleep ms w = w\<lparr>trace := trace w @ [Sleep ms]\<rparr>"

text \<open>\<open>try { block } catch (e) { handler } finally { fin }\<close> over a state.\<close>

definition try_catch_finally ::
  "('s \<Rightarrow> (js_error + 'a) \<times> 's) \<Rightarrow> (js_error \<Rightarrow> 's \<Rightarrow> (js_error + 'a) \<times> 's) \<Rightarrow> ('s \<Rightarrow> 's)
     \<Rightarrow> 's \<Rightarrow> (js_error + 'a) \<times> 's" where
  "try_catch_finally block handler fin w =
     (case block w of
        (Inr v, w') \<Rightarrow> (Inr v, fin w')
      | (Inl e, w') \<Rightarrow> (case handler e w' of (r, w'') \<Rightarrow> (r, fin w'')))"


section \<open>The review classifier scripts (two versions of one page, \<open>unnamed/part_000\<close>)\<close>

text \<open>
  Both scripts read the token field and write the error box and the spinner.
\<close>

record page = browser +
  token_value :: string
  err_textContent :: string
  err_display :: string
  spinner_display :: string

definition showError :: "string \<Rightarrow> page \<Rightarrow> page" where
  "showError msg w = w\<lparr>err_textContent := msg, err_display := ''block''\<rparr>"

definition showSpin :: "bool \<Rightarrow> page \<Rightarrow> page" where
  "showSpin on w = w\<lparr>spinner_display := (if on then ''grid'' else ''none'')\<rparr>"

definition newline :: string where
  "newline = [CHR 0x0A]"

text \<open>\<open>typeof v === "string"\<close> for a value that may be \<open>undefined\<close>.\<close>

fun as_string :: "json option \<Rightarrow> string option" where
  "as_string (Some (JStr t)) = Some t"
| "as_string v = None"

fun typeof_object :: "json \<Rightarrow> bool" where
  "typeof_object JNull = True"
| "typeof_object (JArr xs) = True"
| "typeof_object (JObj kvs) = True"
| "typeof_object v = False"

text \<open>\<open>v?.k\<close> where \<open>v\<close> itself may be \<open>undefined\<close>.\<close>

fun opt_chain :: "json option \<Rightarrow> string \<Rightarrow> json option" where
  "opt_chain None k = None"
| "opt_chain (Some v) k = get_prop v k"

text \<open>\<open>v.k\<close> without the question mark: reading a property of \<open>null\<close> throws.\<close>

definition null_read :: "string \<Rightarrow> js_error" where
  "null_read k = new_TypeError (''Cannot read properties of null (reading '' @ [CHR 0x27] @ k @ [CHR 0x27] @ '')'')"

fun member :: "json \<Rightarrow> string \<Rightarrow> js_error + json option" where
  "member JNull k = Inl (null_read k)"
| "member v k = Inr (get_prop v k)"

text \<open>A value in a condition: \<open>Some v\<close> when it is there and truthy.\<close>

fun if_truthy :: "json option \<Rightarrow> json option" where
  "if_truthy None = None"
| "if_truthy (Some v) = (if truthy v then Some v else None)"

text \<open>\<open>String(text).split("\n")[0].toLowerCase().trim()\<close>.\<close>

definition firstLine :: "string \<Rightarrow> string" where
  "firstLine text = trim (toLowerCase (first_line text))"

subsection \<open>First version: the token is optional, no retry\<close>

definition url_v1 :: string where
  "url_v1 = ''https://api-inference.huggingface.co/models/tiiuae/falcon-7b-instruct''"

definition safeError :: "response \<Rightarrow> string" where
  "safeError res = (case body_text res of Inl e \<Rightarrow> [] | Inr t \<Rightarrow> slice_to 500 t)"

text \<open>The two last branches of the chain that reads the generation.\<close>

definition error_branch :: "json \<Rightarrow> json option \<Rightarrow> js_error" where
  "error_branch data er =
     (case (if truthy data then if_truthy er else None) of
        Some v \<Rightarrow> (case js_String v of Inl e \<Rightarrow> e | Inr s \<Rightarrow> new_Error s)
      | None \<Rightarrow> new_Error ''Unexpected API response.'')"

definition generation_v1 :: "json \<Rightarrow> js_error + string" where
  "generation_v1 data =
     (case (if is_array data \<and> first_elem data \<noteq> None
            then as_string (opt_chain (first_elem data) ''generated_text'') else None) of
        Some t \<Rightarrow> Inr t
      | None \<Rightarrow>
          (if typeof_object data then
             (case member data ''generated_text'' of
                Inl e \<Rightarrow> Inl e
              | Inr g \<Rightarrow>
                  (case as_string g of
                     Some t \<Rightarrow> Inr t
                   | None \<Rightarrow> Inl (error_branch data (get_prop data ''error''))))
           else Inl (error_branch data (get_prop data ''error''))))"

definition request_v1 :: "string \<Rightarrow> string \<Rightarrow> request" where
  "request_v1 token prompt =
     (let tk = trim token
      in \<lparr>url = url_v1, http_method = ''POST'',
          headers = [(''Content-Type'', ''application/json'')] @
                    (if tk \<noteq> [] then [(''Authorization'', ''Bearer '' @ tk)] else []),
          body = TextBody (JSON_stringify (JObj [(''inputs'', JStr prompt)]))\<rparr>)"

definition not_ok_v1 :: "response \<Rightarrow> js_error" where
  "not_ok_v1 res =
     (let msg = safeError res
      in if status res = 402
           then new_Error (''Payment required (402). Provide a valid Hugging Face token or try later.'' @ newline @ msg)
         else if status res = 429
           then new_Error (''Rate limited (429). Please slow down and try again.'' @ newline @ msg)
         else new_Error (''API error '' @ show_nat (status res) @ ''.'' @ newline @ msg))"

definition callApi_v1 :: "string \<Rightarrow> page \<Rightarrow> (js_error + string option) \<times> page" where
  "callApi_v1 prompt w0 =
     try_catch_finally
       (\<lambda>w. case fetch (request_v1 (token_value w) prompt) w of
               (Inl e, w') \<Rightarrow> (Inl e, w')
             | (Inr res, w') \<Rightarrow>
                 if \<not> ok res then (Inl (not_ok_v1 res), w')
                 else (case body_json res of
                         Inl e \<Rightarrow> (Inl e, w')
                       | Inr data \<Rightarrow>
                           (case generation_v1 data of
                              Inl e \<Rightarrow> (Inl e, w')
                            | Inr text \<Rightarrow> (Inr (Some (firstLine text)), w'))))
       (\<lambda>e w. (Inr None, showError (message_or_error e) w))
       (showSpin False)
       (showSpin True w0)"

subsection \<open>Second version: the token is required, one retry\<close>

definition url_v2 :: string where
  "url_v2 = ''https://api-inference.huggingface.co/models/tiiuae/falcon-7b-instruct?wait_for_model=true''"

definition safeText :: "response \<Rightarrow> string" where
  "safeText res = (case body_text res of Inl e \<Rightarrow> [] | Inr t \<Rightarrow> slice_to 800 t)"

definition request_v2 :: "string \<Rightarrow> string \<Rightarrow> request" where
  "request_v2 tk prompt =
     \<lparr>url = url_v2, http_method = ''POST'',
      headers = [(''Content-Type'', ''application/json''),
                 (''Authorization'', ''Bearer '' @ tk),
                 (''Accept'', ''application/json'')],
      body = TextBody (JSON_stringify (JObj [(''inputs'', JStr prompt)]))\<rparr>"

text \<open>What \<open>attempt\<close> does with the response once \<open>fetch\<close> has resolved.\<close>

definition attempt_response :: "response \<Rightarrow> js_error + json" where
  "attempt_response res =
     (if \<not> ok res then
        (let body = safeText res;
             msg = ''API error '' @ show_nat (status res) @ ''. '' @ body
         in if status res = 402
              then Inl (new_Error (''Payment required (402). Provide a valid HF token or try later.'' @ newline @ body))
            else if status res = 429
              then Inl (new_Error (''Rate limited (429). Please slow down and try again.'' @ newline @ body))
            else if status res = 404 \<or> status res = 503
              then Inl (new_Error (''Model is warming up or temporarily unavailable. '' @ msg))
            else Inl (new_Error msg))
      else body_json res)"

definition attempt :: "request \<Rightarrow> page \<Rightarrow> (js_error + json) \<times> page" where
  "attempt rq w =
     (case fetch rq w of
        (Inl e, w') \<Rightarrow> (Inl e, w')
      | (Inr res, w') \<Rightarrow> (attempt_response res, w'))"

text \<open>The condition of the inner \<open>catch\<close>.\<close>

definition retry_wanted :: "js_error \<Rightarrow> bool" where
  "retry_wanted e \<longleftrightarrow>
     js_includes (error_toString e) ''warming up'' \<or> js_includes (error_toString e) ''404''
       \<or> js_includes (error_toString e) ''503''"

definition attempt_with_retry :: "request \<Rightarrow> page \<Rightarrow> (js_error + json) \<times> page" where
  "attempt_with_retry rq w =
     (case attempt rq w of
        (Inr data, w') \<Rightarrow> (Inr data, w')
      | (Inl e, w') \<Rightarrow> if retry_wanted e then attempt rq (sleep 1200 w') else (Inl e, w'))"

definition generation_v2 :: "json \<Rightarrow> js_error + json" where
  "generation_v2 data =
     (case (if is_array data then if_truthy (opt_chain (first_elem data) ''generated_text'') else None) of
        Some t \<Rightarrow> Inr t
      | None \<Rightarrow>
          (case if_truthy (get_prop data ''generated_text'') of
             Some t \<Rightarrow> Inr t
           | None \<Rightarrow>
               (case if_truthy (get_prop data ''error'') of
                  Some v \<Rightarrow> (case js_String v of Inl e \<Rightarrow> Inl e | Inr s \<Rightarrow> Inl (new_Error s))
                | None \<Rightarrow> Inl (new_Error ''Unexpected API response.''))))"

text \<open>The statements after the retry, up to \<open>return firstLine\<close>.\<close>

definition parse_generation :: "json \<Rightarrow> js_error + string option" where
  "parse_generation data =
     (case generation_v2 data of
        Inl e \<Rightarrow> Inl e
      | Inr text \<Rightarrow> (case js_String text of Inl e \<Rightarrow> Inl e | Inr s \<Rightarrow> Inr (Some (firstLine s))))"

definition callApi_v2 :: "string \<Rightarrow> page \<Rightarrow> (js_error + string option) \<times> page" where
  "callApi_v2 prompt w0 =
     (let tk = trim (token_value w0)
      in if tk = [] then
           (Inr None,
            showError ''Hugging Face token is required for this endpoint. Create one at hf.co/settings/tokens and paste here.'' w0)
         else
           try_catch_finally
             (\<lambda>w. case attempt_with_retry (request_v2 tk prompt) w of
                     (Inl e, w') \<Rightarrow> (Inl e, w')
                   | (Inr data, w') \<Rightarrow> (parse_generation data, w'))
             (\<lambda>e w. (Inr None, showError (message_or_error e) w))
             (showSpin False)
             (showSpin True w0))"

text \<open>
  What one settled \<open>fetch\<close> leads to when nothing is retried after it: the checks of
  \<open>attempt\<close>, then the statements that read the generation.
\<close>

definition outcome_of_fetch :: "js_error + response \<Rightarrow> js_error + string option" where
  "outcome_of_fetch settled =
     (case settled of
        Inl e \<Rightarrow> Inl e
      | Inr res \<Rightarrow> (case attempt_response res of Inl e \<Rightarrow> Inl e | Inr data \<Rightarrow> parse_generation data))"

text \<open>
  What a call of \<open>attempt\<close> comes to, given how its \<open>fetch\<close> settles, and whether
  the inner \<open>catch\<close> answers a first attempt with the delay and a second attempt: it
  does when the attempt throws and the text of the error passes the condition.
\<close>

definition attempt_settle :: "js_error + response \<Rightarrow> js_error + json" where
  "attempt_settle settled = (case settled of Inl e \<Rightarrow> Inl e | Inr res \<Rightarrow> attempt_response res)"

definition first_attempt_retried :: "js_error + response \<Rightarrow> bool" where
  "first_attempt_retried settled =
     (case attempt_settle settled of Inl e \<Rightarrow> retry_wanted e | Inr data \<Rightarrow> False)"

section \<open>The sentiment page (\<open>lecture_first/app.js\<close>)\<close>

record review_page = browser +
  apiToken_value :: string
  reviews :: "string list"
  reviewDisplay_text :: string
  error_text :: string
  error_hidden :: bool
  loading_hidden :: bool
  result_hidden :: bool
  analyzeBtn_disabled :: bool
  displayed :: "json option"

definition url_sentiment :: string where
  "url_sentiment = ''https://api-inference.huggingface.co/models/siebert/sentiment-roberta-large-english''"

definition showError_review :: "string \<Rightarrow> review_page \<Rightarrow> review_page" where
  "showError_review message w =
     w\<lparr>error_text := message, error_hidden := False, loading_hidden := True,
       analyzeBtn_disabled := False\<rparr>"

definition hideError :: "review_page \<Rightarrow> review_page" where
  "hideError w = w\<lparr>error_hidden := True, error_text := []\<rparr>"

text \<open>
  \<open>displaySentimentResult\<close> reads \<open>result.label\<close>, which throws on \<open>null\<close>, and
  uses \<open>result.score\<close> as a number, which throws when the score has no primitive
  value. The icon and the percentage it renders need floating-point arithmetic and are
  not modelled: \<open>displayed\<close> keeps the result object that was rendered.
\<close>

definition displaySentimentResult :: "json \<Rightarrow> review_page \<Rightarrow> (js_error + unit) \<times> review_page" where
  "displaySentimentResult result w =
     (case member result ''label'' of
        Inl e \<Rightarrow> (Inl e, w)
      | Inr l \<Rightarrow>
          (case (case get_prop result ''score'' of None \<Rightarrow> Inr [] | Some sc \<Rightarrow> js_String sc) of
             Inl e \<Rightarrow> (Inl e, w)
           | Inr n \<Rightarrow> (Inr (), w\<lparr>displayed := Some result, result_hidden := False\<rparr>)))"

definition request_sentiment :: "string \<Rightarrow> string option \<Rightarrow> request" where
  "request_sentiment token randomReview =
     (let apiToken = trim token
      in \<lparr>url = url_sentiment, http_method = ''POST'',
          headers = [(''Content-Type'', ''application/json'')] @
                    (if apiToken \<noteq> [] then [(''Authorization'', ''Bearer '' @ apiToken)] else []),
          body = TextBody (JSON_stringify
                   (JObj (case randomReview of None \<Rightarrow> [] | Some r \<Rightarrow> [(''inputs'', JStr r)])))\<rparr>)"

definition not_ok_sentiment :: "response \<Rightarrow> js_error" where
  "not_ok_sentiment res =
     (if status res = 503 then new_Error ''Model is loading, please try again in a few moments''
      else if status res = 429 then new_Error ''Rate limit exceeded. Please add an API token for higher limits''
      else if status res = 401 then new_Error ''Invalid API token provided''
      else new_Error (''API error: '' @ show_nat (status res) @ '' '' @ statusText res))"

text \<open>The validation of the second \<open>then\<close>: \<open>Some\<close> of \<open>data[0][0]\<close> when it passes.\<close>

fun first_of_first :: "json \<Rightarrow> json option" where
  "first_of_first (JArr (JArr (r # rs) # xs)) = Some r"
| "first_of_first v = None"

text \<open>
  \<open>analyzeRandomReview\<close>; \<open>randomIndex\<close> is the value of
  \<open>Math.floor(Math.random() * reviews.length)\<close>, and the promise chain is run to its end.
\<close>

definition analyzeRandomReview :: "nat \<Rightarrow> review_page \<Rightarrow> review_page" where
  "analyzeRandomReview randomIndex w0 =
     (let w1 = (hideError w0)\<lparr>result_hidden := True, loading_hidden := False,
                               analyzeBtn_disabled := True\<rparr>;
          randomReview = (if randomIndex < length (reviews w1)
                          then Some (reviews w1 ! randomIndex) else None);
          w2 = w1\<lparr>reviewDisplay_text := (case randomReview of None \<Rightarrow> [] | Some r \<Rightarrow> r)\<rparr>;
          (settled, w3) = fetch (request_sentiment (apiToken_value w2) randomReview) w2;
          (chain, w4) =
            (case settled of
               Inl e \<Rightarrow> (Inl e, w3)
             | Inr res \<Rightarrow>
                 if \<not> ok res then (Inl (not_ok_sentiment res), w3)
                 else (case body_json res of
                         Inl e \<Rightarrow> (Inl e, w3)
                       | Inr data \<Rightarrow>
                           (case first_of_first data of
                              None \<Rightarrow> (Inl (new_Error ''Invalid response from API''), w3)
                            | Some result \<Rightarrow> displaySentimentResult result w3)));
          w5 = (case chain of Inl e \<Rightarrow> showError_review (err_message e) w4 | Inr u \<Rightarrow> w4)
      in w5\<lparr>loading_hidden := True, analyzeBtn_disabled := False\<rparr>)"

section \<open>The event logger (\<open>lecture_thirdindex/app.js\<close>)\<close>

record logger_page = browser +
  gasUrl_value :: "string option"
  status_textContent :: string
  localStorage :: "string \<rightharpoonup> string"
  clock :: nat

text \<open>
  \<open>gasUrl_value\<close> is the value of the input \<open>#gasUrl\<close>, \<open>None\<close> when the page has
  no such element; \<open>clock\<close> is \<open>Date.now()\<close>.
\<close>

definition LS_KEY_URL :: string where
  "LS_KEY_URL = ''gas_url''"

definition LS_KEY_UID :: string where
  "LS_KEY_UID = ''uid''"

text \<open>
  What the platform's generators return when this call asks them:
  \<open>crypto?.randomUUID?.()\<close> (\<open>None\<close>: \<open>undefined\<close>, the method is not there) and
  \<open>Math.random().toString(36)\<close>.
\<close>

record generators =
  randomUUID :: "string option"
  random_base36 :: string

text \<open>\<open>x || ""\<close> for a string that may be \<open>null\<close> or \<open>undefined\<close>.\<close>

fun or_empty :: "string option \<Rightarrow> string" where
  "or_empty None = []"
| "or_empty (Some s) = s"

definition getUserId :: "generators \<Rightarrow> logger_page \<Rightarrow> string \<times> logger_page" where
  "getUserId g w =
     (let stored = or_empty (localStorage w LS_KEY_UID)
      in if stored = [] then
           (let uid = (if or_empty (randomUUID g) \<noteq> [] then or_empty (randomUUID g)
                       else slice_from 2 (random_base36 g))
            in (uid, w\<lparr>localStorage := (localStorage w)(LS_KEY_UID \<mapsto> uid)\<rparr>))
         else (stored, w))"

definition getGasUrl :: "logger_page \<Rightarrow> string \<times> logger_page" where
  "getGasUrl w =
     (let entered = trim (or_empty (gasUrl_value w))
      in if entered \<noteq> [] then (entered, w)
         else (let saved = trim (or_empty (localStorage w LS_KEY_URL))
               in (saved, if gasUrl_value w \<noteq> None \<and> saved \<noteq> []
                          then w\<lparr>gasUrl_value := Some saved\<rparr> else w)))"

record payload =
  p_event :: "string option"
  p_variant :: "string option"
  p_userId :: "string option"
  p_ts :: "nat option"
  p_meta :: "json option"

text \<open>\<open>URLSearchParams.prototype.set\<close>.\<close>

fun form_set :: "string \<Rightarrow> string \<Rightarrow> (string \<times> string) list \<Rightarrow> (string \<times> string) list" where
  "form_set k v [] = [(k, v)]"
| "form_set k v ((k', v') # rest) =
     (if k' = k then (k, v) # filter (\<lambda>p. fst p \<noteq> k) rest else (k', v') # form_set k v rest)"

text \<open>The check mark \<open>U+2705\<close> of the status line, as its three UTF-8 bytes.\<close>

definition check_mark :: string where
  "check_mark = [CHR 0xE2, CHR 0x9C, CHR 0x85]"

definition log_form :: "payload \<Rightarrow> nat \<Rightarrow> (string \<times> string) list" where
  "log_form p now =
     form_set ''meta'' (JSON_stringify (case if_truthy (p_meta p) of Some m \<Rightarrow> m | None \<Rightarrow> JObj []))
       (form_set ''ts'' (show_nat (case p_ts p of None \<Rightarrow> now | Some t \<Rightarrow> if t = 0 then now else t))
         (form_set ''userId'' (or_empty (p_userId p))
           (form_set ''variant'' (or_empty (p_variant p))
             (form_set ''event'' (or_empty (p_event p)) []))))"

definition log_failed :: "js_error \<Rightarrow> logger_page \<Rightarrow> string \<times> logger_page" where
  "log_failed err w =
     (''ERROR: '' @ error_toString err,
      w\<lparr>status_textContent := ''Log failed: '' @ error_toString err\<rparr>)"

definition sendLogSimple :: "payload \<Rightarrow> logger_page \<Rightarrow> string \<times> logger_page" where
  "sendLogSimple p w0 =
     (case getGasUrl w0 of
        (target, w1) \<Rightarrow>
          if target = [] then
            (''MISSING_URL'',
             w1\<lparr>status_textContent := ''Missing Web App URL. Paste it and click Save URL first.''\<rparr>)
          else
            (case fetch \<lparr>url = target, http_method = ''POST'', headers = [],
                         body = FormBody (log_form p (clock w1))\<rparr> w1 of
               (Inl err, w2) \<Rightarrow> log_failed err w2
             | (Inr res, w2) \<Rightarrow>
                 (case body_text res of
                    Inl err \<Rightarrow> log_failed err w2
                  | Inr text \<Rightarrow>
                      if \<not> ok res
                      then log_failed (new_Error (''HTTP '' @ show_nat (status res) @ '': '' @ text)) w2
                      else (text, w2\<lparr>status_textContent := ''Logged '' @ check_mark\<rparr>))))"

section \<open>What the caller of \<open>callApi\<close> observes\<close>

text \<open>A label, or \<open>null\<close> with a message in the error box.\<close>

definition answered :: "string \<Rightarrow> (js_error + string option) \<times> page \<Rightarrow> bool" where
  "answered label r \<longleftrightarrow> fst r = Inr (Some label)"

definition failed_with :: "string \<Rightarrow> (js_error + string option) \<times> page \<Rightarrow> bool" where
  "failed_with msg r \<longleftrightarrow>
     fst r = Inr None \<and> err_textContent (snd r) = msg \<and> err_display (snd r) = ''block''"

section \<open>Sample pages and responses\<close>

definition fresh_page :: "string \<Rightarrow> (nat \<Rightarrow> js_error + response) \<Rightarrow> page" where
  "fresh_page token net =
     \<lparr>network = net, trace = [], token_value = token, err_textContent = [],
      err_display = ''none'', spinner_display = ''none''\<rparr>"

definition json_response :: "nat \<Rightarrow> json \<Rightarrow> response" where
  "json_response code data =
     \<lparr>status = code, statusText = [], body_text = Inr (JSON_stringify data), body_json = Inr data\<rparr>"

definition text_response :: "nat \<Rightarrow> string \<Rightarrow> response" where
  "text_response code txt =
     \<lparr>status = code, statusText = [], body_text = Inr txt,
      body_json = Inl (JsError ''SyntaxError'' ''Unexpected end of JSON input'')\<rparr>"

definition replies :: "response \<Rightarrow> response \<Rightarrow> nat \<Rightarrow> js_error + response" where
  "replies r1 r2 n = (if n = 0 then Inr r1 else Inr r2)"

definition high_reply :: response where
  "high_reply = json_response 200 (JArr [JObj [(''generated_text'', JStr ''HIGH'')]])"

definition warming_page :: page where
  "warming_page = fresh_page ''hf_abc'' (replies (text_response 404 ''loading'') high_reply)"

definition payment_page :: page where
  "payment_page =
     fresh_page ''hf_abc'' (replies (text_response 402 ''Monthly credits used up (request 4041)'') high_reply)"

definition gateway_page :: page where
  "gateway_page =
     fresh_page ''hf_abc'' (replies (text_response 500 ''upstream returned 503'') high_reply)"

definition empty_generation_page :: page where
  "empty_generation_page =
     fresh_page ''hf_abc''
       (\<lambda>n. Inr (json_response 200 (JArr [JObj [(''generated_text'', JStr [])]])))"

definition positive_reply :: response where
  "positive_reply =
     json_response 200 (JObj [(''generated_text'', JStr (''Positive'' @ newline @ ''because...''))])"

definition positive_page :: page where
  "positive_page = fresh_page ''hf_abc'' (\<lambda>n. Inr positive_reply)"

definition model_not_found_reply :: response where
  "model_not_found_reply = json_response 200 (JObj [(''error'', JStr ''model not found'')])"

definition model_not_found_page :: page where
  "model_not_found_page = fresh_page ''hf_abc'' (\<lambda>n. Inr model_not_found_reply)"

definition failed_to_fetch :: js_error where
  "failed_to_fetch = JsError ''TypeError'' ''Failed to fetch''"


definition blank_token_page :: page where
  "blank_token_page = fresh_page ''  '' (\<lambda>n. Inr high_reply)"

definition sample_review_page :: review_page where
  "sample_review_page =
     \<lparr>network = (\<lambda>n. Inl failed_to_fetch), trace = [], apiToken_value = [],
      reviews = [''Great product''], reviewDisplay_text = [], error_text = [],
      error_hidden = True, loading_hidden = True, result_hidden = True,
      analyzeBtn_disabled = False, displayed = None\<rparr>"

definition sample_logger_page :: logger_page where
  "sample_logger_page =
     \<lparr>network = (\<lambda>n. Inr (text_response 200 ''ok'')), trace = [],
      gasUrl_value = Some ''https://script.google.com/macros/s/abc/exec'',
      status_textContent = [], localStorage = Map.empty, clock = 1700000000000\<rparr>"

definition sample_payload :: payload where
  "sample_payload =
     \<lparr>p_event = Some ''cta_click'', p_variant = Some ''A'', p_userId = Some ''u1'',
      p_ts = Some 1700000000123, p_meta = Some (JObj [(''page'', JStr ''/index.html'')])\<rparr>"

definition unconfigured_page :: logger_page where
  "unconfigured_page = sample_logger_page\<lparr>gasUrl_value := Some '' ''\<rparr>"

text \<open>A browser without \<open>crypto.randomUUID\<close> whose \<open>Math.random()\<close> returns 0, and one where it returns another number.\<close>

definition zero_generators :: generators where
  "zero_generators = \<lparr>randomUUID = None, random_base36 = ''0''\<rparr>"

definition other_generators :: generators where
  "other_generators = \<lparr>randomUUID = None, random_base36 = ''0.4fzyo82mvyr''\<rparr>"

definition numeric_generation_page :: page where
  "numeric_generation_page =
     fresh_page ''hf_abc'' (\<lambda>n. Inr (json_response 200 (JObj [(''generated_text'', JNum ''5'')])))"

definition retried_positive_page :: page where
  "retried_positive_page = fresh_page ''hf_abc'' (replies (text_response 503 ''loading'') positive_reply)"



section \<open>Facts about the helpers\<close>

lemma startsWith_append: "startsWith (p @ s) p"
  by (induction p) auto

lemma js_includes_here: "js_includes (p @ s) p"
  by (cases "p @ s") (auto simp: startsWith_append dest: sym)

lemma js_includes_mid: "js_includes (a @ p @ s) p"
proof (induction a)
  case Nil
  show ?case using js_includes_here by simp
next
  case (Cons c a)
  then show ?case by simp
qed

lemma trim_hf_abc: "trim ''hf_abc'' = ''hf_abc''"
  by code_simp

lemma firstLine_HIGH: "firstLine ''HIGH'' = ''high''"
  by code_simp

section \<open>The retry of the second version\<close>

lemma warming_retry:
  "retry_wanted (new_Error (''Model is warming up or temporarily unavailable. '' @ msg))"
  using js_includes_mid [of "''Error: Model is ''" "''warming up''" "'' or temporarily unavailable. '' @ msg"]
  by (simp add: retry_wanted_def error_toString_def new_Error_def)

lemma attempt_response_warming:
  "status res = 404 \<or> status res = 503 \<Longrightarrow>
   attempt_response res = Inl (new_Error (''Model is warming up or temporarily unavailable. ''
      @ ''API error '' @ show_nat (status res) @ ''. '' @ safeText res))"
  by (auto simp: attempt_response_def ok_def Let_def)

lemma outcome_high_reply: "outcome_of_fetch (Inr high_reply) = Inr (Some ''high'')"
  by (simp add: outcome_of_fetch_def high_reply_def json_response_def attempt_response_def ok_def
      parse_generation_def generation_v2_def firstLine_HIGH)

text \<open>
  Claim C1. When the first response of a call of the second version has status 404 or
  503, the call issues its request, waits 1200 ms once, issues the request once more and
  stops: these three events are all it adds to the trace. What it returns and what it
  shows in the error box are determined by how the second \<open>fetch\<close> settles alone; the
  failure of the first attempt is never shown.
\<close>

theorem callApi_retry_once:
  assumes tk: "trim (token_value w) \<noteq> []"
    and first: "network w (fetch_count w) = Inr res"
    and st: "status res = 404 \<or> status res = 503"
  shows "trace (snd (callApi_v2 prompt w)) =
           trace w @ [Fetch (request_v2 (trim (token_value w)) prompt), Sleep 1200,
                      Fetch (request_v2 (trim (token_value w)) prompt)]
       \<and> (case outcome_of_fetch (network w (Suc (fetch_count w))) of
             Inr v \<Rightarrow> fst (callApi_v2 prompt w) = Inr v
                     \<and> err_textContent (snd (callApi_v2 prompt w)) = err_textContent w
           | Inl e \<Rightarrow> fst (callApi_v2 prompt w) = Inr None
                     \<and> err_textContent (snd (callApi_v2 prompt w)) = message_or_error e)"
proof -
  let ?rq = "request_v2 (trim (token_value w)) prompt"
  let ?w1 = "showSpin True w"
  let ?w2 = "?w1\<lparr>trace := trace w @ [Fetch ?rq]\<rparr>"
  let ?w3 = "?w1\<lparr>trace := trace w @ [Fetch ?rq, Sleep 1200, Fetch ?rq]\<rparr>"
  let ?second = "network w (Suc (fetch_count w))"
  have a1: "attempt ?rq ?w1 = (attempt_response res, ?w2)"
    using first by (simp add: attempt_def fetch_def showSpin_def fetch_count_def)
  have count2: "fetch_count (sleep 1200 ?w2) = Suc (fetch_count w)"
    by (simp add: sleep_def fetch_count_def showSpin_def)
  have a2: "attempt ?rq (sleep 1200 ?w2) =
      (case ?second of Inl e \<Rightarrow> Inl e | Inr r2 \<Rightarrow> attempt_response r2, ?w3)"
    using count2
    by (simp add: attempt_def fetch_def sleep_def showSpin_def split: sum.splits)
  have retry: "attempt_with_retry ?rq ?w1 =
      (case ?second of Inl e \<Rightarrow> Inl e | Inr r2 \<Rightarrow> attempt_response r2, ?w3)"
    using a1 a2 attempt_response_warming [OF st] warming_retry
    by (simp add: attempt_with_retry_def)
  have call: "callApi_v2 prompt w =
      (case outcome_of_fetch ?second of
         Inr v \<Rightarrow> (Inr v, showSpin False ?w3)
       | Inl e \<Rightarrow> (Inr None, showSpin False (showError (message_or_error e) ?w3)))"
    using tk retry
    by (simp add: callApi_v2_def try_catch_finally_def outcome_of_fetch_def Let_def
        split: sum.splits)
  show ?thesis
    unfolding call
    by (simp add: showSpin_def showError_def split: sum.splits)
qed

theorem callApi_retry_once_witness:
  "trim (token_value warming_page) \<noteq> []
   \<and> network warming_page (fetch_count warming_page) = Inr (text_response 404 ''loading'')
   \<and> status (text_response 404 ''loading'') = 404
   \<and> trace (snd (callApi_v2 ''Classify'' warming_page)) =
        [Fetch (request_v2 ''hf_abc'' ''Classify''), Sleep 1200, Fetch (request_v2 ''hf_abc'' ''Classify'')]
   \<and> fst (callApi_v2 ''Classify'' warming_page) = Inr (Some ''high'')
   \<and> err_textContent (snd (callApi_v2 ''Classify'' warming_page)) = []"
proof -
  have tk: "trim (token_value warming_page) \<noteq> []"
    by (simp add: warming_page_def fresh_page_def trim_hf_abc)
  have first: "network warming_page (fetch_count warming_page) = Inr (text_response 404 ''loading'')"
    by (simp add: warming_page_def fresh_page_def fetch_count_def replies_def)
  have st: "status (text_response 404 ''loading'') = 404 \<or> status (text_response 404 ''loading'') = 503"
    by (simp add: text_response_def)
  have second: "outcome_of_fetch (network warming_page (Suc (fetch_count warming_page))) = Inr (Some ''high'')"
    by (simp add: warming_page_def fresh_page_def fetch_count_def replies_def outcome_high_reply)
  show ?thesis
    using callApi_retry_once [OF tk first st, of "''Classify''"] tk first second
    by (simp add: warming_page_def fresh_page_def trim_hf_abc text_response_def)
qed

section \<open>The second version as a whole\<close>

lemma attempt_settles:
  "attempt rq w = (attempt_settle (network w (fetch_count w)), w\<lparr>trace := trace w @ [Fetch rq]\<rparr>)"
  by (simp add: attempt_def fetch_def attempt_settle_def split: sum.splits)

lemma outcome_by_attempt:
  "outcome_of_fetch settled =
     (case attempt_settle settled of Inl e \<Rightarrow> Inl e | Inr data \<Rightarrow> parse_generation data)"
  by (simp add: outcome_of_fetch_def attempt_settle_def split: sum.splits)

text \<open>
  The whole of the second version: the outcome of the first attempt when it is not
  retried, of the second attempt when it is.
\<close>

lemma callApi_v2_settled:
  assumes tk: "trim (token_value w) \<noteq> []"
  shows "callApi_v2 prompt w =
     (let rq = request_v2 (trim (token_value w)) prompt;
          retried = first_attempt_retried (network w (fetch_count w));
          final = (if retried then network w (Suc (fetch_count w)) else network w (fetch_count w));
          w' = (showSpin True w)\<lparr>trace := trace w @
                  (if retried then [Fetch rq, Sleep 1200, Fetch rq] else [Fetch rq])\<rparr>
      in case outcome_of_fetch final of
           Inr v \<Rightarrow> (Inr v, showSpin False w')
         | Inl e \<Rightarrow> (Inr None, showSpin False (showError (message_or_error e) w')))"
proof -
  let ?rq = "request_v2 (trim (token_value w)) prompt"
  let ?w1 = "showSpin True w"
  let ?w2 = "?w1\<lparr>trace := trace w @ [Fetch ?rq]\<rparr>"
  let ?w3 = "?w1\<lparr>trace := trace w @ [Fetch ?rq, Sleep 1200, Fetch ?rq]\<rparr>"
  let ?A = "network w (fetch_count w)"
  let ?B = "network w (Suc (fetch_count w))"
  have a1: "attempt ?rq ?w1 = (attempt_settle ?A, ?w2)"
    by (simp add: attempt_settles showSpin_def fetch_count_def)
  have a2: "attempt ?rq (sleep 1200 ?w2) = (attempt_settle ?B, ?w3)"
    by (simp add: attempt_settles sleep_def showSpin_def fetch_count_def)
  have retry: "attempt_with_retry ?rq ?w1 =
      (if first_attempt_retried ?A then (attempt_settle ?B, ?w3) else (attempt_settle ?A, ?w2))"
    using a1 a2
    by (simp add: attempt_with_retry_def first_attempt_retried_def split: sum.splits)
  show ?thesis
  proof (cases "first_attempt_retried ?A")
    case True
    then show ?thesis
      using tk retry
      by (simp add: callApi_v2_def try_catch_finally_def outcome_by_attempt Let_def
          split: sum.splits)
  next
    case False
    then show ?thesis
      using tk retry
      by (simp add: callApi_v2_def try_catch_finally_def outcome_by_attempt Let_def
          split: sum.splits)
  qed
qed

lemma callApi_v2_observed:
  assumes tk: "trim (token_value w) \<noteq> []"
    and final: "final = (if first_attempt_retried (network w (fetch_count w))
                         then network w (Suc (fetch_count w)) else network w (fetch_count w))"
  shows "(outcome_of_fetch final = Inr v \<longrightarrow> fst (callApi_v2 prompt w) = Inr v)
       \<and> (outcome_of_fetch final = Inl e \<longrightarrow>
            failed_with (message_or_error e) (callApi_v2 prompt w)
            \<and> spinner_display (snd (callApi_v2 prompt w)) = ''none'')"
  using final
  by (simp add: callApi_v2_settled [OF tk] Let_def failed_with_def showSpin_def showError_def)

lemma callApi_v1_settled:
  "callApi_v1 prompt w =
     (let w' = (showSpin True w)\<lparr>trace := trace w @ [Fetch (request_v1 (token_value w) prompt)]\<rparr>
      in case (case network w (fetch_count w) of
                 Inl e \<Rightarrow> Inl e
               | Inr res \<Rightarrow>
                   if \<not> ok res then Inl (not_ok_v1 res)
                   else (case body_json res of
                           Inl e \<Rightarrow> Inl e
                         | Inr data \<Rightarrow>
                             (case generation_v1 data of
                                Inl e \<Rightarrow> Inl e | Inr t \<Rightarrow> Inr (Some (firstLine t))))) of
           Inr v \<Rightarrow> (Inr v, showSpin False w')
         | Inl e \<Rightarrow> (Inr None, showSpin False (showError (message_or_error e) w')))"
  by (simp add: callApi_v1_def try_catch_finally_def fetch_def fetch_count_def showSpin_def Let_def
      split: sum.splits)

lemma retried_facts:
  "first_attempt_retried (Inl e) = retry_wanted e"
  "ok res \<Longrightarrow> body_json res = Inr data \<Longrightarrow> \<not> first_attempt_retried (Inr res)"
  "ok res \<Longrightarrow> body_json res = Inl e \<Longrightarrow> first_attempt_retried (Inr res) = retry_wanted e"
  "attempt_response res = Inl e \<Longrightarrow> first_attempt_retried (Inr res) = retry_wanted e"
  "status res = 404 \<or> status res = 503 \<Longrightarrow> first_attempt_retried (Inr res)"
  using attempt_response_warming [of res] warming_retry
  by (auto simp: first_attempt_retried_def attempt_settle_def attempt_response_def)

lemma outcome_facts:
  "outcome_of_fetch (Inl e) = Inl e"
  "ok res \<Longrightarrow> body_json res = Inr data \<Longrightarrow> outcome_of_fetch (Inr res) = parse_generation data"
  "ok res \<Longrightarrow> body_json res = Inl e \<Longrightarrow> outcome_of_fetch (Inr res) = Inl e"
  "attempt_response res = Inl e \<Longrightarrow> outcome_of_fetch (Inr res) = Inl e"
  by (simp_all add: outcome_of_fetch_def attempt_response_def)


section \<open>Reading the generation\<close>

lemma message_new_Error: "s \<noteq> [] \<Longrightarrow> message_or_error (new_Error s) = s"
  by (simp add: message_or_error_def new_Error_def)

lemma failed_with_Inl:
  "failed_with msg (Inr None, showSpin False (showError shown w)) \<longleftrightarrow> msg = shown"
  by (auto simp: failed_with_def showSpin_def showError_def)

lemma generation_v1_text:
  assumes "data = JArr (JObj kvs # rest) \<or> data = JObj kvs"
    and "map_of kvs ''generated_text'' = Some (JStr t)"
  shows "generation_v1 data = Inr t"
  using assms by (auto simp: generation_v1_def)

lemma parse_generation_text:
  assumes "data = JArr (JObj kvs # rest) \<or> data = JObj kvs"
    and "map_of kvs ''generated_text'' = Some (JStr t)" and "t \<noteq> []"
  shows "parse_generation data = Inr (Some (firstLine t))"
  using assms by (auto simp: parse_generation_def generation_v2_def)

lemma firstLine_Positive: "firstLine (''Positive'' @ newline @ ''because...'') = ''positive''"
  by code_simp


text \<open>The chain of the first version: a string at one of the two places, or a throw.\<close>

lemma generation_v1_string:
  assumes "opt_chain (first_elem data) ''generated_text'' = Some (JStr t)
           \<or> get_prop data ''generated_text'' = Some (JStr t)"
  shows "generation_v1 data = Inr t"
proof (cases data)
  case (JArr xs)
  with assms show ?thesis
    by (cases xs) (auto simp: generation_v1_def)
next
  case (JObj kvs)
  with assms show ?thesis
    by (auto simp: generation_v1_def)
qed (use assms in auto)

lemma as_string_None: "(\<forall>u. g \<noteq> Some (JStr u)) \<Longrightarrow> as_string g = None"
  by (cases g rule: as_string.cases) auto

lemma generation_v1_nothing:
  assumes "\<forall>u. opt_chain (first_elem data) ''generated_text'' \<noteq> Some (JStr u)"
    and "\<forall>u. get_prop data ''generated_text'' \<noteq> Some (JStr u)"
  shows "generation_v1 data =
           Inl (if data = JNull then null_read ''generated_text''
                else error_branch data (get_prop data ''error''))"
  using as_string_None [OF assms(1)] as_string_None [OF assms(2)]
  by (cases data) (auto simp: generation_v1_def)

lemma error_branch_text:
  assumes "get_prop data ''error'' = Some (JStr s)" and "s \<noteq> []"
  shows "error_branch data (get_prop data ''error'') = new_Error s" and "data \<noteq> JNull"
  using assms by (cases data; simp add: error_branch_def)+

lemma if_truthy_None: "(\<forall>u. g = Some u \<longrightarrow> \<not> truthy u) \<Longrightarrow> if_truthy g = None"
  by (cases g) auto

lemma error_branch_unexpected:
  assumes "\<forall>u. get_prop data ''error'' = Some u \<longrightarrow> \<not> truthy u"
  shows "error_branch data (get_prop data ''error'') = new_Error ''Unexpected API response.''"
  using if_truthy_None [OF assms] by (simp add: error_branch_def)

text \<open>The chain of the second version: a truthy value at one of the two places, or a throw.\<close>

lemma generation_v2_truthy:
  assumes "opt_chain (first_elem data) ''generated_text'' = Some v
           \<or> get_prop data ''generated_text'' = Some v"
    and "truthy v"
  shows "generation_v2 data = Inr v"
proof (cases data)
  case (JArr xs)
  with assms show ?thesis
    by (cases xs) (auto simp: generation_v2_def)
next
  case (JObj kvs)
  with assms show ?thesis
    by (auto simp: generation_v2_def)
qed (use assms in auto)

lemma generation_v2_nothing:
  assumes "\<forall>u. opt_chain (first_elem data) ''generated_text'' = Some u
               \<or> get_prop data ''generated_text'' = Some u \<longrightarrow> \<not> truthy u"
  shows "parse_generation data =
           Inl (case if_truthy (get_prop data ''error'') of
                  Some v \<Rightarrow> (case js_String v of Inl e \<Rightarrow> e | Inr s \<Rightarrow> new_Error s)
                | None \<Rightarrow> new_Error ''Unexpected API response.'')"
proof -
  have "if_truthy (opt_chain (first_elem data) ''generated_text'') = None"
    using assms by (intro if_truthy_None) blast
  moreover have "if_truthy (get_prop data ''generated_text'') = None"
    using assms by (intro if_truthy_None) blast
  ultimately show ?thesis
    by (simp add: parse_generation_def generation_v2_def split: option.splits sum.splits)
qed

text \<open>What the caller observes once a 2xx response with a JSON body is the last one.\<close>

lemma v1_answered:
  assumes "network w (fetch_count w) = Inr res" and "ok res" and "body_json res = Inr data"
    and "generation_v1 data = Inr t"
  shows "answered (firstLine t) (callApi_v1 prompt w)"
  using assms by (simp add: callApi_v1_settled Let_def answered_def)

lemma v1_failed:
  assumes "network w (fetch_count w) = Inr res" and "ok res" and "body_json res = Inr data"
    and "generation_v1 data = Inl e"
  shows "failed_with (message_or_error e) (callApi_v1 prompt w)"
    and "spinner_display (snd (callApi_v1 prompt w)) = ''none''"
  using assms
  by (simp_all add: callApi_v1_settled Let_def failed_with_def showSpin_def showError_def)

lemma last_response:
  assumes "network w (fetch_count w) = Inr res
           \<or> first_attempt_retried (network w (fetch_count w))
              \<and> network w (Suc (fetch_count w)) = Inr res"
    and "\<not> first_attempt_retried (Inr res)"
  shows "Inr res = (if first_attempt_retried (network w (fetch_count w))
                    then network w (Suc (fetch_count w)) else network w (fetch_count w))"
  using assms by auto

lemma v2_answered:
  assumes tk: "trim (token_value w) \<noteq> []"
    and last: "network w (fetch_count w) = Inr res
               \<or> first_attempt_retried (network w (fetch_count w))
                  \<and> network w (Suc (fetch_count w)) = Inr res"
    and ok: "ok res" and json: "body_json res = Inr data"
    and parsed: "parse_generation data = Inr v"
  shows "fst (callApi_v2 prompt w) = Inr v"
  using callApi_v2_observed [OF tk last_response [OF last retried_facts(2) [OF ok json]], of v prompt]
    parsed
  by (simp add: outcome_facts(2) [OF ok json])

lemma v2_failed:
  assumes tk: "trim (token_value w) \<noteq> []"
    and last: "network w (fetch_count w) = Inr res
               \<or> first_attempt_retried (network w (fetch_count w))
                  \<and> network w (Suc (fetch_count w)) = Inr res"
    and ok: "ok res" and json: "body_json res = Inr data"
    and parsed: "parse_generation data = Inl e"
  shows "failed_with (message_or_error e) (callApi_v2 prompt w)"
    and "spinner_display (snd (callApi_v2 prompt w)) = ''none''"
  using callApi_v2_observed [OF tk last_response [OF last retried_facts(2) [OF ok json]], of _ prompt e]
    parsed
  by (simp_all add: outcome_facts(2) [OF ok json])

lemma positive_page_facts:
  "network positive_page (fetch_count positive_page) = Inr positive_reply"
  "trim (token_value positive_page) \<noteq> []"
  "ok positive_reply"
  "body_json positive_reply = Inr (JObj [(''generated_text'', JStr (''Positive'' @ newline @ ''because...''))])"
  by (simp_all add: positive_page_def fresh_page_def fetch_count_def trim_hf_abc positive_reply_def
      json_response_def ok_def)

lemma retried_positive_page_facts:
  "network retried_positive_page (fetch_count retried_positive_page) = Inr (text_response 503 ''loading'')"
  "network retried_positive_page (Suc (fetch_count retried_positive_page)) = Inr positive_reply"
  "trim (token_value retried_positive_page) \<noteq> []"
  "status (text_response 503 ''loading'') = 503"
  by (simp_all add: retried_positive_page_def fresh_page_def fetch_count_def trim_hf_abc replies_def
      text_response_def)

text \<open>
  Claim C3, as amended. Take a 2xx response whose JSON body carries a string under
  \<open>generated_text\<close>, in the first element of an array or in the object itself. The
  first version returns the first line of that string, lower-cased and trimmed, for every
  such string. The second version returns it for every such string that is not empty,
  when the response answers the first attempt and when it answers the second attempt
  after a retry (in particular after a first response with status 404 or 503). When the
  string is empty the second version treats it as absent: the call fails, with the text of
  the body's \<open>error\<close> field when that is a non-empty string and with
  \<open>Unexpected API response.\<close> when the body has no truthy \<open>error\<close> field. The two
  bodies of the specification normalise to \<open>positive\<close> and \<open>high\<close>.
\<close>

theorem generated_text_first_line:
  assumes ok: "ok res" and json: "body_json res = Inr data"
    and shape: "data = JArr (JObj kvs # rest) \<or> data = JObj kvs"
    and field: "map_of kvs ''generated_text'' = Some (JStr t)"
  shows
    "(network w (fetch_count w) = Inr res \<longrightarrow>
        fst (callApi_v1 prompt w) = Inr (Some (trim (toLowerCase (first_line t)))))
     \<and> (t \<noteq> [] \<and> trim (token_value w) \<noteq> [] \<and> network w (fetch_count w) = Inr res \<longrightarrow>
          fst (callApi_v2 prompt w) = Inr (Some (trim (toLowerCase (first_line t)))))
     \<and> (t \<noteq> [] \<and> trim (token_value w) \<noteq> []
          \<and> network w (fetch_count w) = Inr warming
          \<and> (status warming = 404 \<or> status warming = 503)
          \<and> network w (Suc (fetch_count w)) = Inr res \<longrightarrow>
          fst (callApi_v2 prompt w) = Inr (Some (trim (toLowerCase (first_line t)))))
     \<and> (t \<noteq> [] \<and> trim (token_value w) \<noteq> []
          \<and> first_attempt_retried (network w (fetch_count w))
          \<and> network w (Suc (fetch_count w)) = Inr res \<longrightarrow>
          fst (callApi_v2 prompt w) = Inr (Some (trim (toLowerCase (first_line t)))))
     \<and> (t \<noteq> [] \<longrightarrow>
          outcome_of_fetch (Inr res) = Inr (Some (trim (toLowerCase (first_line t)))))
     \<and> (t = [] \<and> trim (token_value w) \<noteq> []
          \<and> (network w (fetch_count w) = Inr res
              \<or> first_attempt_retried (network w (fetch_count w))
                \<and> network w (Suc (fetch_count w)) = Inr res) \<longrightarrow>
          (\<exists>msg. failed_with msg (callApi_v2 prompt w))
          \<and> (get_prop data ''error'' = Some (JStr s) \<and> s \<noteq> [] \<longrightarrow>
                failed_with s (callApi_v2 prompt w))
          \<and> ((\<forall>u. get_prop data ''error'' = Some u \<longrightarrow> \<not> truthy u) \<longrightarrow>
                failed_with ''Unexpected API response.'' (callApi_v2 prompt w)))
     \<and> trim (toLowerCase (first_line (''Positive'' @ newline @ ''because...''))) = ''positive''
     \<and> trim (toLowerCase (first_line ''HIGH'')) = ''high''"
proof -
  have v1: "fst (callApi_v1 prompt w) = Inr (Some (firstLine t))"
    if "network w (fetch_count w) = Inr res"
    using v1_answered [OF that ok json generation_v1_text [OF shape field], of prompt]
    by (simp add: answered_def)
  have v2: "fst (callApi_v2 prompt w) = Inr (Some (firstLine t))"
    if "t \<noteq> []" and "trim (token_value w) \<noteq> []"
      and "network w (fetch_count w) = Inr res
           \<or> first_attempt_retried (network w (fetch_count w))
              \<and> network w (Suc (fetch_count w)) = Inr res"
    using v2_answered [OF that(2,3) ok json parse_generation_text [OF shape field that(1)]] .
  have warm: "first_attempt_retried (network w (fetch_count w))"
    if "network w (fetch_count w) = Inr warming" and "status warming = 404 \<or> status warming = 503"
    using retried_facts(5) [OF that(2)] that(1) by simp
  have retried: "outcome_of_fetch (Inr res) = Inr (Some (firstLine t))" if "t \<noteq> []"
    using outcome_facts(2) [OF ok json] parse_generation_text [OF shape field that] by simp
  have empty: "(\<exists>msg. failed_with msg (callApi_v2 prompt w))
      \<and> (get_prop data ''error'' = Some (JStr s) \<and> s \<noteq> [] \<longrightarrow>
            failed_with s (callApi_v2 prompt w))
      \<and> ((\<forall>u. get_prop data ''error'' = Some u \<longrightarrow> \<not> truthy u) \<longrightarrow>
            failed_with ''Unexpected API response.'' (callApi_v2 prompt w))"
    if "t = []" and tk: "trim (token_value w) \<noteq> []"
      and last: "network w (fetch_count w) = Inr res
           \<or> first_attempt_retried (network w (fetch_count w))
              \<and> network w (Suc (fetch_count w)) = Inr res"
  proof -
    have "\<forall>u. opt_chain (first_elem data) ''generated_text'' = Some u
              \<or> get_prop data ''generated_text'' = Some u \<longrightarrow> \<not> truthy u"
      using shape field \<open>t = []\<close> by auto
    note g = generation_v2_nothing [OF this]
    note failure = v2_failed(1) [OF tk last ok json g, of prompt]
    have err: "failed_with s (callApi_v2 prompt w)"
      if "get_prop data ''error'' = Some (JStr s)" and "s \<noteq> []"
      using failure that by (simp add: message_new_Error)
    have unexpected: "failed_with ''Unexpected API response.'' (callApi_v2 prompt w)"
      if "\<forall>u. get_prop data ''error'' = Some u \<longrightarrow> \<not> truthy u"
      using failure if_truthy_None [OF that] by (simp add: message_new_Error)
    show ?thesis
      using failure by (intro conjI impI; (elim conjE)?) (auto simp: err unexpected)
  qed
  have warmed: "fst (callApi_v2 prompt w) = Inr (Some (firstLine t))"
    if "t \<noteq> []" and "trim (token_value w) \<noteq> []"
      and "network w (fetch_count w) = Inr warming"
      and "status warming = 404 \<or> status warming = 503"
      and "network w (Suc (fetch_count w)) = Inr res"
    using v2 [OF that(1,2)] warm [OF that(3,4)] that(5) by blast
  show ?thesis
    unfolding firstLine_def [symmetric]
    using v1 v2 warmed retried empty firstLine_Positive firstLine_HIGH
    by blast
qed

theorem generated_text_first_line_witness:
  "network positive_page (fetch_count positive_page) = Inr positive_reply
   \<and> ok positive_reply
   \<and> fst (callApi_v1 ''Classify'' positive_page) = Inr (Some ''positive'')
   \<and> fst (callApi_v2 ''Classify'' positive_page) = Inr (Some ''positive'')
   \<and> network retried_positive_page (fetch_count retried_positive_page) = Inr (text_response 503 ''loading'')
   \<and> network retried_positive_page (Suc (fetch_count retried_positive_page)) = Inr positive_reply
   \<and> fst (callApi_v2 ''Classify'' retried_positive_page) = Inr (Some ''positive'')"
proof -
  let ?t = "''Positive'' @ newline @ ''because...''"
  have shape: "JObj [(''generated_text'', JStr ?t)] = JArr (JObj [(''generated_text'', JStr ?t)] # [])
      \<or> JObj [(''generated_text'', JStr ?t)] = JObj [(''generated_text'', JStr ?t)]"
    by simp
  have field: "map_of [(''generated_text'', JStr ?t)] ''generated_text'' = Some (JStr ?t)"
    by simp
  have filled: "?t \<noteq> []"
    by simp
  note first = generated_text_first_line [OF positive_page_facts(3,4) shape field,
      where w = positive_page and prompt = "''Classify''"]
  note again = generated_text_first_line [OF positive_page_facts(3,4) shape field,
      where w = retried_positive_page and prompt = "''Classify''"
        and warming = "text_response 503 ''loading''"]
  have a: "fst (callApi_v1 ''Classify'' positive_page) = Inr (Some ''positive'')"
    "fst (callApi_v2 ''Classify'' positive_page) = Inr (Some ''positive'')"
    using first positive_page_facts(1,2) filled by simp_all
  have b: "fst (callApi_v2 ''Classify'' retried_positive_page) = Inr (Some ''positive'')"
    using again retried_positive_page_facts filled by simp
  show ?thesis
    using a b positive_page_facts(1,3) retried_positive_page_facts(1,2) by simp
qed

text \<open>
  The claim as written fails on the second version: an empty generation is a string, yet
  the call returns \<open>null\<close> and reports an unexpected response.
\<close>

theorem empty_generation_rejected:
  "fst (callApi_v2 ''Classify'' empty_generation_page) = Inr None
   \<and> fst (callApi_v2 ''Classify'' empty_generation_page) \<noteq> Inr (Some (trim (toLowerCase (first_line []))))
   \<and> err_textContent (snd (callApi_v2 ''Classify'' empty_generation_page)) = ''Unexpected API response.''"
  by code_simp

text \<open>
  Claim C4, as amended. For a 2xx response with a JSON body, \<open>generated_text\<close> is
  looked for in the first element of an array and in the object itself. The first version
  extracts it when it is a string, and returns its normalised first line. The second
  version, on the first attempt or on the second one after a retry, extracts it when it is
  truthy and returns the normalised first line of \<open>String\<close> of it (it fails when that
  conversion throws). When nothing is extracted (no string at either place for the first
  version, nothing truthy at either place for the second) the call fails: it returns
  \<open>null\<close> and shows a message, which is the text of the body's \<open>error\<close> field when
  that is a non-empty string, and \<open>Unexpected API response.\<close> when the body has no
  truthy \<open>error\<close> field (and, for the first version, is not \<open>null\<close>).
\<close>

theorem generation_shapes:
  assumes ok: "ok res" and json: "body_json res = Inr data"
  shows
    "(network w (fetch_count w) = Inr res \<longrightarrow>
        (opt_chain (first_elem data) ''generated_text'' = Some (JStr t)
           \<or> get_prop data ''generated_text'' = Some (JStr t) \<longrightarrow>
             answered (firstLine t) (callApi_v1 prompt w))
        \<and> ((\<forall>u. opt_chain (first_elem data) ''generated_text'' \<noteq> Some (JStr u))
             \<and> (\<forall>u. get_prop data ''generated_text'' \<noteq> Some (JStr u)) \<longrightarrow>
             (\<exists>msg. failed_with msg (callApi_v1 prompt w))
             \<and> (get_prop data ''error'' = Some (JStr s) \<and> s \<noteq> [] \<longrightarrow>
                   failed_with s (callApi_v1 prompt w))
             \<and> ((\<forall>u. get_prop data ''error'' = Some u \<longrightarrow> \<not> truthy u) \<and> data \<noteq> JNull \<longrightarrow>
                   failed_with ''Unexpected API response.'' (callApi_v1 prompt w))))
     \<and> (trim (token_value w) \<noteq> []
          \<and> (network w (fetch_count w) = Inr res
              \<or> first_attempt_retried (network w (fetch_count w))
                \<and> network w (Suc (fetch_count w)) = Inr res) \<longrightarrow>
        ((opt_chain (first_elem data) ''generated_text'' = Some v
            \<or> get_prop data ''generated_text'' = Some v) \<and> truthy v \<longrightarrow>
             (js_String v = Inr shown \<longrightarrow> answered (firstLine shown) (callApi_v2 prompt w))
             \<and> (js_String v = Inl e \<longrightarrow> failed_with (message_or_error e) (callApi_v2 prompt w)))
        \<and> ((\<forall>u. opt_chain (first_elem data) ''generated_text'' = Some u
                  \<or> get_prop data ''generated_text'' = Some u \<longrightarrow> \<not> truthy u) \<longrightarrow>
             (\<exists>msg. failed_with msg (callApi_v2 prompt w))
             \<and> (get_prop data ''error'' = Some (JStr s) \<and> s \<noteq> [] \<longrightarrow>
                   failed_with s (callApi_v2 prompt w))
             \<and> ((\<forall>u. get_prop data ''error'' = Some u \<longrightarrow> \<not> truthy u) \<longrightarrow>
                   failed_with ''Unexpected API response.'' (callApi_v2 prompt w))))"
proof -
  have first_version: "(opt_chain (first_elem data) ''generated_text'' = Some (JStr t)
           \<or> get_prop data ''generated_text'' = Some (JStr t) \<longrightarrow>
             answered (firstLine t) (callApi_v1 prompt w))
        \<and> ((\<forall>u. opt_chain (first_elem data) ''generated_text'' \<noteq> Some (JStr u))
             \<and> (\<forall>u. get_prop data ''generated_text'' \<noteq> Some (JStr u)) \<longrightarrow>
             (\<exists>msg. failed_with msg (callApi_v1 prompt w))
             \<and> (get_prop data ''error'' = Some (JStr s) \<and> s \<noteq> [] \<longrightarrow>
                   failed_with s (callApi_v1 prompt w))
             \<and> ((\<forall>u. get_prop data ''error'' = Some u \<longrightarrow> \<not> truthy u) \<and> data \<noteq> JNull \<longrightarrow>
                   failed_with ''Unexpected API response.'' (callApi_v1 prompt w)))"
    if net: "network w (fetch_count w) = Inr res"
  proof -
    note answer = v1_answered [OF net ok json, of _ prompt]
    note failure = v1_failed(1) [OF net ok json, of _ prompt]
    have found: "answered (firstLine t) (callApi_v1 prompt w)"
      if "opt_chain (first_elem data) ''generated_text'' = Some (JStr t)
          \<or> get_prop data ''generated_text'' = Some (JStr t)"
      using answer [OF generation_v1_string [OF that]] .
    have absent: "(\<exists>msg. failed_with msg (callApi_v1 prompt w))
        \<and> (get_prop data ''error'' = Some (JStr s) \<and> s \<noteq> [] \<longrightarrow>
              failed_with s (callApi_v1 prompt w))
        \<and> ((\<forall>u. get_prop data ''error'' = Some u \<longrightarrow> \<not> truthy u) \<and> data \<noteq> JNull \<longrightarrow>
              failed_with ''Unexpected API response.'' (callApi_v1 prompt w))"
      if n1: "\<forall>u. opt_chain (first_elem data) ''generated_text'' \<noteq> Some (JStr u)"
        and n2: "\<forall>u. get_prop data ''generated_text'' \<noteq> Some (JStr u)"
    proof -
      note g = generation_v1_nothing [OF n1 n2]
      have any: "\<exists>msg. failed_with msg (callApi_v1 prompt w)"
        using failure [OF g] by blast
      have err: "failed_with s (callApi_v1 prompt w)"
        if "get_prop data ''error'' = Some (JStr s)" and "s \<noteq> []"
        using failure [OF g] error_branch_text [OF that] that(2) by (simp add: message_new_Error)
      have unexpected: "failed_with ''Unexpected API response.'' (callApi_v1 prompt w)"
        if "\<forall>u. get_prop data ''error'' = Some u \<longrightarrow> \<not> truthy u" and "data \<noteq> JNull"
        using failure [OF g] error_branch_unexpected [OF that(1)] that(2)
        by (simp add: message_new_Error)
      show ?thesis using any err unexpected by blast
    qed
    show ?thesis
      by (intro conjI impI; (elim conjE)?) (simp_all add: found absent)
  qed
  have second_version: "((opt_chain (first_elem data) ''generated_text'' = Some v
            \<or> get_prop data ''generated_text'' = Some v) \<and> truthy v \<longrightarrow>
             (js_String v = Inr shown \<longrightarrow> answered (firstLine shown) (callApi_v2 prompt w))
             \<and> (js_String v = Inl e \<longrightarrow> failed_with (message_or_error e) (callApi_v2 prompt w)))
        \<and> ((\<forall>u. opt_chain (first_elem data) ''generated_text'' = Some u
                  \<or> get_prop data ''generated_text'' = Some u \<longrightarrow> \<not> truthy u) \<longrightarrow>
             (\<exists>msg. failed_with msg (callApi_v2 prompt w))
             \<and> (get_prop data ''error'' = Some (JStr s) \<and> s \<noteq> [] \<longrightarrow>
                   failed_with s (callApi_v2 prompt w))
             \<and> ((\<forall>u. get_prop data ''error'' = Some u \<longrightarrow> \<not> truthy u) \<longrightarrow>
                   failed_with ''Unexpected API response.'' (callApi_v2 prompt w)))"
    if tk: "trim (token_value w) \<noteq> []"
      and last: "network w (fetch_count w) = Inr res
              \<or> first_attempt_retried (network w (fetch_count w))
                \<and> network w (Suc (fetch_count w)) = Inr res"
  proof -
    note answer = v2_answered [OF tk last ok json, of _ prompt]
    note failure = v2_failed(1) [OF tk last ok json, of _ prompt]
    have found: "(js_String v = Inr shown \<longrightarrow> answered (firstLine shown) (callApi_v2 prompt w))
        \<and> (js_String v = Inl e \<longrightarrow> failed_with (message_or_error e) (callApi_v2 prompt w))"
      if "opt_chain (first_elem data) ''generated_text'' = Some v
          \<or> get_prop data ''generated_text'' = Some v" and "truthy v"
    proof -
      note g = generation_v2_truthy [OF that]
      have "answered (firstLine shown) (callApi_v2 prompt w)" if "js_String v = Inr shown"
        using answer [of "Some (firstLine shown)"] g that
        by (simp add: parse_generation_def answered_def)
      moreover have "failed_with (message_or_error e) (callApi_v2 prompt w)" if "js_String v = Inl e"
        using failure [of e] g that by (simp add: parse_generation_def)
      ultimately show ?thesis by blast
    qed
    have absent: "(\<exists>msg. failed_with msg (callApi_v2 prompt w))
        \<and> (get_prop data ''error'' = Some (JStr s) \<and> s \<noteq> [] \<longrightarrow>
              failed_with s (callApi_v2 prompt w))
        \<and> ((\<forall>u. get_prop data ''error'' = Some u \<longrightarrow> \<not> truthy u) \<longrightarrow>
              failed_with ''Unexpected API response.'' (callApi_v2 prompt w))"
      if none: "\<forall>u. opt_chain (first_elem data) ''generated_text'' = Some u
                  \<or> get_prop data ''generated_text'' = Some u \<longrightarrow> \<not> truthy u"
    proof -
      note g = generation_v2_nothing [OF none]
      have any: "\<exists>msg. failed_with msg (callApi_v2 prompt w)"
        using failure [OF g] by blast
      have err: "failed_with s (callApi_v2 prompt w)"
        if "get_prop data ''error'' = Some (JStr s)" and "s \<noteq> []"
        using failure [OF g] that by (simp add: message_new_Error)
      have unexpected: "failed_with ''Unexpected API response.'' (callApi_v2 prompt w)"
        if "\<forall>u. get_prop data ''error'' = Some u \<longrightarrow> \<not> truthy u"
        using failure [OF g] if_truthy_None [OF that] by (simp add: message_new_Error)
      show ?thesis using any err unexpected by blast
    qed
    show ?thesis
      by (intro conjI impI; (elim conjE)?) (simp_all add: found absent)
  qed
  show ?thesis
    by (intro conjI impI; (elim conjE)?) (simp_all add: first_version second_version)
qed

theorem generation_shapes_witness:
  "network model_not_found_page (fetch_count model_not_found_page) = Inr model_not_found_reply
   \<and> ok model_not_found_reply
   \<and> failed_with ''model not found'' (callApi_v1 ''Classify'' model_not_found_page)
   \<and> failed_with ''model not found'' (callApi_v2 ''Classify'' model_not_found_page)
   \<and> answered ''positive'' (callApi_v1 ''Classify'' positive_page)
   \<and> answered ''positive'' (callApi_v2 ''Classify'' positive_page)"
proof -
  let ?data = "JObj [(''error'', JStr ''model not found'')]"
  let ?t = "''Positive'' @ newline @ ''because...''"
  have net: "network model_not_found_page (fetch_count model_not_found_page) = Inr model_not_found_reply"
    by (simp add: model_not_found_page_def fresh_page_def fetch_count_def)
  have ok: "ok model_not_found_reply"
    by (simp add: model_not_found_reply_def json_response_def ok_def)
  have json: "body_json model_not_found_reply = Inr ?data"
    by (simp add: model_not_found_reply_def json_response_def)
  have tk: "trim (token_value model_not_found_page) \<noteq> []"
    by (simp add: model_not_found_page_def fresh_page_def trim_hf_abc)
  note refused = generation_shapes [OF ok json, where w = model_not_found_page
      and s = "''model not found''" and prompt = "''Classify''"]
  note given = generation_shapes [OF positive_page_facts(3,4), where w = positive_page
      and t = ?t and v = "JStr ?t" and shown = ?t and prompt = "''Classify''"]
  have a: "failed_with ''model not found'' (callApi_v1 ''Classify'' model_not_found_page)"
    "failed_with ''model not found'' (callApi_v2 ''Classify'' model_not_found_page)"
    using refused net tk by simp_all
  have b: "answered (firstLine ?t) (callApi_v1 ''Classify'' positive_page)"
    "answered (firstLine ?t) (callApi_v2 ''Classify'' positive_page)"
    using given positive_page_facts(1,2) by simp_all
  show ?thesis
    using a b [unfolded firstLine_Positive] net ok by simp
qed

text \<open>
  The claim as written fails whichever way the shape is read: on the 2xx body
  \<open>{"generated_text": 5}\<close> the second version returns \<open>5\<close> and the first version
  reports an unexpected response.
\<close>

theorem numeric_generation_differs:
  "answered ''5'' (callApi_v2 ''Classify'' numeric_generation_page)
   \<and> failed_with ''Unexpected API response.'' (callApi_v1 ''Classify'' numeric_generation_page)"
  by code_simp

section \<open>Errors never leave \<open>callApi\<close>\<close>















section \<open>The optional token\<close>

lemma trace_callApi_v1:
  "trace (snd (callApi_v1 prompt w)) = trace w @ [Fetch (request_v1 (token_value w) prompt)]"
  by (simp add: callApi_v1_def try_catch_finally_def fetch_def showSpin_def showError_def
        split: sum.splits)

lemma trace_analyzeRandomReview:
  "trace (analyzeRandomReview i v) =
       trace v @ [Fetch (request_sentiment (apiToken_value v)
                    (if i < length (reviews v) then Some (reviews v ! i) else None))]"
  by (simp add: analyzeRandomReview_def fetch_def hideError_def showError_review_def
        displaySentimentResult_def Let_def split: sum.splits option.splits)

lemma trim_blank: "trim ''  '' = []"
  by code_simp

text \<open>
  Claim C6. The first version of \<open>callApi\<close> and \<open>analyzeRandomReview\<close> send their
  request whatever the token field holds. When the field is empty or holds only white
  space the request has the \<open>Content-Type\<close> header alone, so no \<open>Authorization\<close>
  header; otherwise \<open>Authorization\<close> is \<open>Bearer\<close> followed by the trimmed token.
\<close>

theorem optional_authorization:
  "trace (snd (callApi_v1 prompt w)) = trace w @ [Fetch (request_v1 (token_value w) prompt)]
   \<and> headers (request_v1 token prompt) =
       (if trim token = [] then [(''Content-Type'', ''application/json'')]
        else [(''Content-Type'', ''application/json''), (''Authorization'', ''Bearer '' @ trim token)])
   \<and> trace (analyzeRandomReview i v) =
       trace v @ [Fetch (request_sentiment (apiToken_value v)
                    (if i < length (reviews v) then Some (reviews v ! i) else None))]
   \<and> headers (request_sentiment token review) =
       (if trim token = [] then [(''Content-Type'', ''application/json'')]
        else [(''Content-Type'', ''application/json''), (''Authorization'', ''Bearer '' @ trim token)])"
  using trace_callApi_v1 [of prompt w] trace_analyzeRandomReview [of i v]
  by (simp add: request_v1_def request_sentiment_def Let_def)

theorem optional_authorization_witness:
  "trace (snd (callApi_v1 ''Classify'' blank_token_page)) = [Fetch (request_v1 ''  '' ''Classify'')]
   \<and> map_of (headers (request_v1 ''  '' ''Classify'')) ''Authorization'' = None
   \<and> trace (analyzeRandomReview 0 sample_review_page) = [Fetch (request_sentiment [] (Some ''Great product''))]
   \<and> map_of (headers (request_sentiment [] (Some ''Great product''))) ''Authorization'' = None
   \<and> map_of (headers (request_v1 ''hf_abc'' ''Classify'')) ''Authorization'' = Some ''Bearer hf_abc''"
proof -
  note blank = optional_authorization [of "''Classify''" blank_token_page "''  ''" 0 sample_review_page
      "Some ''Great product''"]
  note given = optional_authorization [of "''Classify''" blank_token_page "''hf_abc''" 0 sample_review_page
      "Some ''Great product''"]
  have tr1: "trace (snd (callApi_v1 ''Classify'' blank_token_page)) = [Fetch (request_v1 ''  '' ''Classify'')]"
    using blank by (simp add: blank_token_page_def fresh_page_def)
  have tr3: "trace (analyzeRandomReview 0 sample_review_page) = [Fetch (request_sentiment [] (Some ''Great product''))]"
    using blank by (simp add: sample_review_page_def)
  have h1: "map_of (headers (request_v1 ''  '' ''Classify'')) ''Authorization'' = None"
    using blank by (simp add: trim_blank)
  have h2: "map_of (headers (request_v1 ''hf_abc'' ''Classify'')) ''Authorization'' = Some ''Bearer hf_abc''"
    using given by (simp add: trim_hf_abc)
  have "trim [] = []" by (simp add: trim_def)
  then have h3: "map_of (headers (request_sentiment [] (Some ''Great product''))) ''Authorization'' = None"
    by (simp add: request_sentiment_def)
  show ?thesis using tr1 tr3 h1 h2 h3 by simp
qed

section \<open>The retry condition reads the response body\<close>

text \<open>
  Claim C2: a first response with status 402, 429 or 401 ends the call with the matching
  failure, without a delay and without a second request. The second version decides the
  retry by searching the text of the thrown error for \<open>warming up\<close>, \<open>404\<close> and
  \<open>503\<close>, and that text ends with the captured response body. On a 402 whose body
  mentions a request number containing 404, the call waits 1200 ms, sends the request
  again and returns the answer of the second response.
\<close>

theorem payment_required_retried:
  "network payment_page 0 = Inr (text_response 402 ''Monthly credits used up (request 4041)'')
   \<and> trace (snd (callApi_v2 ''Classify'' payment_page)) =
        [Fetch (request_v2 ''hf_abc'' ''Classify''), Sleep 1200, Fetch (request_v2 ''hf_abc'' ''Classify'')]
   \<and> fst (callApi_v2 ''Classify'' payment_page) = Inr (Some ''high'')
   \<and> err_textContent (snd (callApi_v2 ''Classify'' payment_page)) = []"
  by code_simp

text \<open>An error whose text holds none of the three markers ends the call at once.\<close>

lemma callApi_v2_no_retry:
  assumes tk: "trim (token_value w) \<noteq> []"
    and first: "network w (fetch_count w) = Inr res"
    and thrown: "attempt_response res = Inl e" and quiet: "\<not> retry_wanted e"
  shows "trace (snd (callApi_v2 prompt w)) =
           trace w @ [Fetch (request_v2 (trim (token_value w)) prompt)]
       \<and> failed_with (message_or_error e) (callApi_v2 prompt w)"
proof -
  let ?rq = "request_v2 (trim (token_value w)) prompt"
  let ?w2 = "(showSpin True w)\<lparr>trace := trace w @ [Fetch ?rq]\<rparr>"
  have "attempt ?rq (showSpin True w) = (Inl e, ?w2)"
    using first thrown by (simp add: attempt_def fetch_def showSpin_def fetch_count_def)
  then have "callApi_v2 prompt w = (Inr None, showSpin False (showError (message_or_error e) ?w2))"
    using tk quiet
    by (simp add: callApi_v2_def try_catch_finally_def attempt_with_retry_def Let_def)
  then show ?thesis
    by (simp add: failed_with_Inl) (simp add: showSpin_def showError_def)
qed

text \<open>The captured body text is a prefix of bounded length in both versions.\<close>

lemma length_safeError: "length (safeError res) \<le> 500"
  by (simp add: safeError_def slice_to_def split: sum.splits)

lemma length_safeText: "length (safeText res) \<le> 800"
  by (simp add: safeText_def slice_to_def split: sum.splits)

lemma callApi_v1_other_status:
  assumes "network w (fetch_count w) = Inr res" and "\<not> ok res"
    and "status res \<noteq> 402" and "status res \<noteq> 429"
  shows "failed_with (''API error '' @ show_nat (status res) @ ''.'' @ newline @ safeError res)
           (callApi_v1 prompt w)"
  using assms
  by (simp add: callApi_v1_def try_catch_finally_def fetch_def fetch_count_def showSpin_def
      showError_def not_ok_v1_def failed_with_def message_or_error_def new_Error_def)

text \<open>
  Claim C7: every other non-2xx response ends the call with a failure that carries the
  status and a bounded prefix of the body. The first version does so
  (\<open>callApi_v1_other_status\<close>, \<open>length_safeError\<close>). In the second version the same
  search of the error text applies: on a 500 whose body mentions 503 the call retries and
  returns the answer of the second response, and no failure is shown.
\<close>

theorem server_error_retried:
  "network gateway_page 0 = Inr (text_response 500 ''upstream returned 503'')
   \<and> trace (snd (callApi_v2 ''Classify'' gateway_page)) =
        [Fetch (request_v2 ''hf_abc'' ''Classify''), Sleep 1200, Fetch (request_v2 ''hf_abc'' ''Classify'')]
   \<and> fst (callApi_v2 ''Classify'' gateway_page) = Inr (Some ''high'')
   \<and> err_textContent (snd (callApi_v2 ''Classify'' gateway_page)) = []"
  by code_simp

section \<open>Properties of the event logger\<close>

lemma getGasUrl_keeps:
  "trace (snd (getGasUrl w)) = trace w" "clock (snd (getGasUrl w)) = clock w"
  "network (snd (getGasUrl w)) = network w"
  by (simp_all add: getGasUrl_def Let_def)

lemma log_form_fields:
  "log_form p now =
     [(''event'', or_empty (p_event p)), (''variant'', or_empty (p_variant p)),
      (''userId'', or_empty (p_userId p)),
      (''ts'', show_nat (case p_ts p of None \<Rightarrow> now | Some t \<Rightarrow> if t = 0 then now else t)),
      (''meta'', JSON_stringify (case if_truthy (p_meta p) of Some m \<Rightarrow> m | None \<Rightarrow> JObj []))]"
  by (simp add: log_form_def)

lemma trim_sample_url:
  "trim ''https://script.google.com/macros/s/abc/exec'' = ''https://script.google.com/macros/s/abc/exec''"
  by code_simp

lemma digit_chars:
  "digit_char 0 = CHR ''0''" "digit_char 1 = CHR ''1''" "digit_char 2 = CHR ''2''"
  "digit_char 3 = CHR ''3''" "digit_char 4 = CHR ''4''" "digit_char 5 = CHR ''5''"
  "digit_char 6 = CHR ''6''" "digit_char 7 = CHR ''7''" "digit_char 8 = CHR ''8''"
  "digit_char 9 = CHR ''9''" "digit_char (Suc 0) = CHR ''1''"
  by code_simp+

lemma show_nat_sample_ts: "show_nat 1700000000123 = ''1700000000123''"
  by (simp add: show_nat.simps digit_chars)

lemma stringify_sample_meta:
  "JSON_stringify (JObj [(''page'', JStr ''/index.html'')])
     = [CHR ''{'', CHR 0x22] @ ''page'' @ [CHR 0x22, CHR '':'', CHR 0x22] @ ''/index.html'' @ [CHR 0x22, CHR ''}'']"
  by code_simp

lemma trim_space: "trim '' '' = []"
  by code_simp

text \<open>
  Claim C8. When an endpoint is configured, \<open>sendLogSimple\<close> issues one request: a
  POST to that endpoint, without any header of its own, whose body is the form with
  exactly the fields \<open>event\<close>, \<open>variant\<close>, \<open>userId\<close>, \<open>ts\<close> and \<open>meta\<close>, in
  this order, \<open>meta\<close> being the JSON text of the payload's \<open>meta\<close> (of \<open>{}\<close> when it
  is missing).
\<close>

theorem sendLogSimple_form:
  assumes "fst (getGasUrl w) \<noteq> []"
  shows "trace (snd (sendLogSimple p w)) =
     trace w @
     [Fetch \<lparr>url = fst (getGasUrl w), http_method = ''POST'', headers = [],
             body = FormBody
               [(''event'', or_empty (p_event p)), (''variant'', or_empty (p_variant p)),
                (''userId'', or_empty (p_userId p)),
                (''ts'', show_nat (case p_ts p of None \<Rightarrow> clock w
                                   | Some t \<Rightarrow> if t = 0 then clock w else t)),
                (''meta'', JSON_stringify
                   (case if_truthy (p_meta p) of Some m \<Rightarrow> m | None \<Rightarrow> JObj []))]\<rparr>]"
proof -
  obtain target w1 where g: "getGasUrl w = (target, w1)"
    by (cases "getGasUrl w")
  have keep: "trace w1 = trace w" "clock w1 = clock w"
    using getGasUrl_keeps [of w] g by simp_all
  have form: "log_form p (clock w1) = log_form p (clock w)"
    by (simp only: keep(2))
  have "trace (snd (sendLogSimple p w)) =
     trace w @ [Fetch \<lparr>url = fst (getGasUrl w), http_method = ''POST'', headers = [],
                       body = FormBody (log_form p (clock w))\<rparr>]"
    using assms g keep(1) form
    by (simp add: sendLogSimple_def fetch_def log_failed_def split: sum.splits)
  then show ?thesis
    by (simp only: log_form_fields)
qed

theorem sendLogSimple_form_witness:
  "fst (getGasUrl sample_logger_page) \<noteq> []
   \<and> trace (snd (sendLogSimple sample_payload sample_logger_page)) =
     [Fetch \<lparr>url = ''https://script.google.com/macros/s/abc/exec'', http_method = ''POST'',
             headers = [],
             body = FormBody
               [(''event'', ''cta_click''), (''variant'', ''A''), (''userId'', ''u1''),
                (''ts'', ''1700000000123''),
                (''meta'', [CHR ''{'', CHR 0x22] @ ''page'' @ [CHR 0x22, CHR '':'', CHR 0x22]
                             @ ''/index.html'' @ [CHR 0x22, CHR ''}''])]\<rparr>]"
proof -
  have target: "fst (getGasUrl sample_logger_page) = ''https://script.google.com/macros/s/abc/exec''"
    by (simp add: getGasUrl_def sample_logger_page_def trim_sample_url Let_def)
  then have configured: "fst (getGasUrl sample_logger_page) \<noteq> []"
    by simp
  have start: "trace sample_logger_page = []"
    by (simp add: sample_logger_page_def)
  have fields: "or_empty (p_event sample_payload) = ''cta_click''"
    "or_empty (p_variant sample_payload) = ''A''" "or_empty (p_userId sample_payload) = ''u1''"
    by (simp_all add: sample_payload_def)
  have ts: "(case p_ts sample_payload of None \<Rightarrow> clock sample_logger_page
             | Some t \<Rightarrow> if t = 0 then clock sample_logger_page else t) = 1700000000123"
    by (simp add: sample_payload_def)
  have meta: "(case if_truthy (p_meta sample_payload) of Some m \<Rightarrow> m | None \<Rightarrow> JObj [])
      = JObj [(''page'', JStr ''/index.html'')]"
    by (simp add: sample_payload_def)
  show ?thesis
    using sendLogSimple_form [OF configured, of sample_payload] configured
    by (simp only: target start fields ts meta show_nat_sample_ts stringify_sample_meta append_Nil)
      simp
qed

text \<open>
  Claim C9. When neither the input nor the storage holds an endpoint (both are empty after
  trimming), \<open>sendLogSimple\<close> returns \<open>MISSING_URL\<close>, puts the guidance message in
  the status line and issues no request.
\<close>

theorem sendLogSimple_missing_url:
  assumes "trim (or_empty (gasUrl_value w)) = []"
    and "trim (or_empty (localStorage w LS_KEY_URL)) = []"
  shows "fst (sendLogSimple p w) = ''MISSING_URL''
       \<and> trace (snd (sendLogSimple p w)) = trace w
       \<and> status_textContent (snd (sendLogSimple p w)) =
           ''Missing Web App URL. Paste it and click Save URL first.''"
  using assms by (simp add: sendLogSimple_def getGasUrl_def Let_def)

theorem sendLogSimple_missing_url_witness:
  "trim (or_empty (gasUrl_value unconfigured_page)) = []
   \<and> trim (or_empty (localStorage unconfigured_page LS_KEY_URL)) = []
   \<and> fst (sendLogSimple sample_payload unconfigured_page) = ''MISSING_URL''
   \<and> trace (snd (sendLogSimple sample_payload unconfigured_page)) = []"
proof -
  have entered: "trim (or_empty (gasUrl_value unconfigured_page)) = []"
    by (simp add: unconfigured_page_def trim_space)
  have saved: "trim (or_empty (localStorage unconfigured_page LS_KEY_URL)) = []"
    by (simp add: unconfigured_page_def sample_logger_page_def trim_def)
  show ?thesis
    using sendLogSimple_missing_url [OF entered saved, of sample_payload] entered saved
    by (simp add: unconfigured_page_def sample_logger_page_def)
qed

text \<open>
  A stored id that is not empty is returned as it is, and an id that is not empty stays
  the answer of every later call.
\<close>

lemma getUserId_stored:
  assumes "localStorage w LS_KEY_UID = Some uid" and "uid \<noteq> []"
  shows "getUserId g w = (uid, w)"
  using assms by (simp add: getUserId_def)

lemma getUserId_stable:
  assumes "fst (getUserId g w) \<noteq> []"
  shows "getUserId g' (snd (getUserId g w)) = getUserId g w"
proof (cases "or_empty (localStorage w LS_KEY_UID) = []")
  case True
  then have first: "getUserId g w =
      (fst (getUserId g w), w\<lparr>localStorage := (localStorage w)(LS_KEY_UID \<mapsto> fst (getUserId g w))\<rparr>)"
    by (simp add: getUserId_def Let_def)
  have "localStorage (snd (getUserId g w)) LS_KEY_UID = Some (fst (getUserId g w))"
    using True by (simp add: getUserId_def Let_def)
  from getUserId_stored [OF this assms] show ?thesis
    using first by simp
next
  case False
  then obtain uid where "localStorage w LS_KEY_UID = Some uid" "uid \<noteq> []"
    by (cases "localStorage w LS_KEY_UID") auto
  then show ?thesis
    by (simp add: getUserId_stored)
qed

text \<open>
  Claim C10: \<open>getUserId\<close> generates a non-empty id when none is stored, and any two
  calls return the same id. Where \<open>crypto.randomUUID\<close> is missing and
  \<open>Math.random()\<close> returns 0, the fallback \<open>Math.random().toString(36).slice(2)\<close> is
  the empty string: the first call stores and returns an empty id, and the next call
  generates another one.
\<close>

theorem getUserId_empty_id:
  "localStorage sample_logger_page LS_KEY_UID = None
   \<and> fst (getUserId zero_generators sample_logger_page) = []
   \<and> localStorage (snd (getUserId zero_generators sample_logger_page)) LS_KEY_UID = Some []
   \<and> fst (getUserId other_generators (snd (getUserId zero_generators sample_logger_page))) = ''4fzyo82mvyr''"
  by (simp add: getUserId_def sample_logger_page_def zero_generators_def other_generators_def
      slice_from_def LS_KEY_UID_def Let_def)

end
